theory Spec2Isabelle
  imports Complex_Main
begin

section \<open>Errors\<close>

text \<open>
  A Go \<open>error\<close> value. \<open>ErrNew\<close> is an error made by \<open>errors.New\<close> (or any error of a
  collaborator that wraps nothing); \<open>WrapError msg e\<close> is what \<open>fmt.Errorf\<close> builds for a
  format with one \<open>%w\<close> verb: the formatted message together with the wrapped error.
\<close>

datatype err = ErrNew string | WrapError string err

fun Error :: "err \<Rightarrow> string" where
  "Error (ErrNew msg) = msg"
| "Error (WrapError msg e) = msg"

fun Unwrap :: "err \<Rightarrow> err option" where
  "Unwrap (ErrNew msg) = None"
| "Unwrap (WrapError msg e) = Some e"

text \<open>
  \<open>Errorf_w prefix e\<close> is \<open>fmt.Errorf(prefix + "%w", e)\<close>: the message is the prefix
  followed by the message of \<open>e\<close>, and \<open>e\<close> is kept as the wrapped cause.
\<close>

definition Errorf_w :: "string \<Rightarrow> err \<Rightarrow> err" where
  "Errorf_w prefix e = WrapError (prefix @ Error e) e"

section \<open>Data\<close>

text \<open>
  The request (\<open>dto.CreateOrderRequest\<close> with its \<open>dto.ProductItem\<close> lines), the product
  as far as the service reads it (\<open>product.Price\<close>), and the domain types
  (\<open>domain.OrderItem\<close>, \<open>domain.Order\<close>). The type \<open>'f\<close> stands for \<open>float64\<close>: the service
  only adds and multiplies prices, starting from \<open>0.0\<close>, so the arithmetic is left
  abstract (a type with \<open>0\<close>, \<open>+\<close> and \<open>*\<close> and no law assumed), and what is proved holds
  for IEEE doubles as it does for exact numbers. Quantities are Go \<open>int\<close>s; the service
  never computes with them except for the conversion \<open>float64(item.Quantity)\<close>.
\<close>

record ProductItem =
  item_ID :: string
  item_Quantity :: int

record CreateOrderRequest =
  dto_Client :: string
  dto_Products :: "ProductItem list"
  dto_Status :: string

record 'f Product =
  product_Price :: 'f

record 'f OrderItem =
  ProductID :: string
  Quantity :: int
  Price :: 'f

record 'f Order =
  order_ID :: string
  order_Client :: string
  order_Products :: "'f OrderItem list"
  order_Status :: string
  order_Total :: 'f

section \<open>Collaborators\<close>

text \<open>
  The collaborators are handles on services outside the order service: each call may
  read and change the world \<open>'w\<close> (a database, a clock), so two calls with the same
  argument need not give the same answer. A call returns an error or a value,
  together with the world it leaves behind.
\<close>

record ('w, 'f) OrderRepository =
  repo_CreateOrder :: "'f Order \<Rightarrow> 'w \<Rightarrow> (err + 'f Order) \<times> 'w"
  repo_GetOrderByID :: "string \<Rightarrow> 'w \<Rightarrow> (err + 'f Order) \<times> 'w"
  repo_GetOrders :: "int \<Rightarrow> int \<Rightarrow> 'w \<Rightarrow> (err + 'f Order list) \<times> 'w"

record ('w, 'f, 'c) OrderService =
  orderRepo :: "('w, 'f) OrderRepository"
  clientService_GetClientByCPF :: "string \<Rightarrow> 'w \<Rightarrow> (err + 'c) \<times> 'w"
  productService_GetProductByID :: "string \<Rightarrow> 'w \<Rightarrow> (err + 'f Product) \<times> 'w"

text \<open>
  What the service uses from outside its own package and is not part of the sources at
  hand: the conversion \<open>float64(n)\<close>, \<open>uuid.Parse\<close> and \<open>UUID.String\<close> of the UUID library
  (\<open>'u\<close> is the parsed UUID), and the decision of the aggregate constructor: whether it
  refuses the order, and the identifier it assigns otherwise.
\<close>

record ('w, 'f, 'u) Platform =
  float64 :: "int \<Rightarrow> 'f"
  uuid_Parse :: "string \<Rightarrow> err + 'u"
  uuid_String :: "'u \<Rightarrow> string"
  domain_NewOrder_decide ::
    "string \<Rightarrow> 'f OrderItem list \<Rightarrow> string \<Rightarrow> 'f \<Rightarrow> 'w \<Rightarrow> (err + string) \<times> 'w"

text \<open>
  Modelled from the spec: \<open>domain.NewOrder\<close>, the constructor of the Order aggregate, is
  missing from the sources. The spec says that it constructs the aggregate, assigning a
  fresh unique identifier, from the client identifier, the computed line items, the
  supplied status and the aggregate total, and that construction itself may fail. So the
  constructed order carries the four arguments as they are; whether construction fails
  and which identifier is assigned is left to \<open>domain_NewOrder_decide\<close>.
\<close>

definition NewOrder ::
  "('w, 'f, 'u) Platform \<Rightarrow> string \<Rightarrow> 'f OrderItem list \<Rightarrow> string \<Rightarrow> 'f \<Rightarrow> 'w
     \<Rightarrow> (err + 'f Order) \<times> 'w" where
  "NewOrder pf client items status tot w =
     (case domain_NewOrder_decide pf client items status tot w of
        (Inl e, w') \<Rightarrow> (Inl e, w')
      | (Inr oid, w') \<Rightarrow>
          (Inr \<lparr>order_ID = oid, order_Client = client, order_Products = items,
                order_Status = status, order_Total = tot\<rparr>, w'))"

section \<open>The calls a request makes\<close>

text \<open>
  To speak about which collaborators a request reaches, and in which order, the state
  of a request is the world together with the list of calls made so far. Each call
  below runs the collaborator on the world and records itself at the end of the list.
\<close>

datatype 'f call =
    GetClientByCPF_call string
  | GetProductByID_call string
  | NewOrder_call string "'f OrderItem list" string 'f
  | Repo_CreateOrder_call "'f Order"
  | Repo_GetOrderByID_call string
  | Repo_GetOrders_call int int

record ('w, 'f) state =
  world :: 'w
  trace :: "'f call list"

definition init :: "'w \<Rightarrow> ('w, 'f) state" where
  "init w = \<lparr>world = w, trace = []\<rparr>"

definition invoke ::
  "'f call \<Rightarrow> ('w \<Rightarrow> 'a \<times> 'w) \<Rightarrow> ('w, 'f) state \<Rightarrow> 'a \<times> ('w, 'f) state" where
  "invoke c f st =
     (case f (world st) of (r, w') \<Rightarrow> (r, \<lparr>world = w', trace = trace st @ [c]\<rparr>))"

section \<open>The order service\<close>

text \<open>
  The loop of \<open>CreateOrder\<close> over \<open>dto.Products\<close>, with the running \<open>total\<close> (here \<open>tot\<close>) and the
  \<open>productPriceMap\<close> as accumulators. The first failing lookup ends the loop with the
  wrapped error.
\<close>

fun CreateOrder_loop ::
  "('w, 'f::{zero,plus,times}, 'u) Platform \<Rightarrow> ('w, 'f, 'c) OrderService \<Rightarrow> ProductItem list
     \<Rightarrow> 'f \<Rightarrow> (string \<rightharpoonup> 'f) \<Rightarrow> ('w, 'f) state
     \<Rightarrow> (err + 'f \<times> (string \<rightharpoonup> 'f)) \<times> ('w, 'f) state" where
  "CreateOrder_loop pf s [] tot productPriceMap st = (Inr (tot, productPriceMap), st)"
| "CreateOrder_loop pf s (item # rest) tot productPriceMap st =
     (case invoke (GetProductByID_call (item_ID item))
             (productService_GetProductByID s (item_ID item)) st of
        (Inl e, st') \<Rightarrow>
          (Inl (Errorf_w (''product validation failed for product ID '' @ item_ID item @ '': '') e),
           st')
      | (Inr product, st') \<Rightarrow>
          CreateOrder_loop pf s rest
            (tot + product_Price product * float64 pf (item_Quantity item))
            (productPriceMap(item_ID item \<mapsto> product_Price product)) st')"

text \<open>
  Reading a Go map at a key it does not hold gives the zero value.
\<close>

definition price_at :: "(string \<rightharpoonup> 'f::zero) \<Rightarrow> string \<Rightarrow> 'f" where
  "price_at prices k = (case prices k of None \<Rightarrow> 0 | Some p \<Rightarrow> p)"

fun ConvertDTOtoSlice ::
  "('w, 'f::{zero,plus,times}, 'u) Platform \<Rightarrow> ProductItem list \<Rightarrow> (string \<rightharpoonup> 'f)
     \<Rightarrow> 'f OrderItem list" where
  "ConvertDTOtoSlice pf [] prices = []"
| "ConvertDTOtoSlice pf (item # rest) prices =
     \<lparr>ProductID = item_ID item, Quantity = item_Quantity item,
      Price = price_at prices (item_ID item) * float64 pf (item_Quantity item)\<rparr>
     # ConvertDTOtoSlice pf rest prices"

definition CreateOrder ::
  "('w, 'f::{zero,plus,times}, 'u) Platform \<Rightarrow> ('w, 'f, 'c) OrderService \<Rightarrow> CreateOrderRequest
     \<Rightarrow> ('w, 'f) state \<Rightarrow> (err + 'f Order) \<times> ('w, 'f) state" where
  "CreateOrder pf s dto st =
     (case invoke (GetClientByCPF_call (dto_Client dto))
             (clientService_GetClientByCPF s (dto_Client dto)) st of
        (Inl e, st1) \<Rightarrow> (Inl (Errorf_w ''client validation failed: '' e), st1)
      | (Inr client, st1) \<Rightarrow>
          (case CreateOrder_loop pf s (dto_Products dto) 0 Map.empty st1 of
             (Inl e, st2) \<Rightarrow> (Inl e, st2)
           | (Inr (tot, productPriceMap), st2) \<Rightarrow>
               (let items = ConvertDTOtoSlice pf (dto_Products dto) productPriceMap in
                case invoke (NewOrder_call (dto_Client dto) items (dto_Status dto) tot)
                       (NewOrder pf (dto_Client dto) items (dto_Status dto) tot) st2 of
                  (Inl e, st3) \<Rightarrow> (Inl (Errorf_w ''failed to create order instance: '' e), st3)
                | (Inr order, st3) \<Rightarrow>
                    (case invoke (Repo_CreateOrder_call order)
                            (repo_CreateOrder (orderRepo s) order) st3 of
                       (Inl e, st4) \<Rightarrow> (Inl (Errorf_w ''failed to save order: '' e), st4)
                     | (Inr savedOrder, st4) \<Rightarrow> (Inr savedOrder, st4)))))"

definition GetOrderByID ::
  "('w, 'f, 'u) Platform \<Rightarrow> ('w, 'f, 'c) OrderService \<Rightarrow> string \<Rightarrow> ('w, 'f) state
     \<Rightarrow> (err + 'f Order) \<times> ('w, 'f) state" where
  "GetOrderByID pf s ident st =
     (case uuid_Parse pf ident of
        Inl e \<Rightarrow> (Inl (Errorf_w ''invalid ID format: '' e), st)
      | Inr uuidID \<Rightarrow>
          (case invoke (Repo_GetOrderByID_call (uuid_String pf uuidID))
                  (repo_GetOrderByID (orderRepo s) (uuid_String pf uuidID)) st of
             (Inl e, st') \<Rightarrow> (Inl (Errorf_w ''order not found: '' e), st')
           | (Inr order, st') \<Rightarrow> (Inr order, st')))"

definition GetOrders ::
  "('w, 'f, 'c) OrderService \<Rightarrow> int \<Rightarrow> int \<Rightarrow> ('w, 'f) state
     \<Rightarrow> (err + 'f Order list) \<times> ('w, 'f) state" where
  "GetOrders s page psize st =
     (let page = (if page \<le> 0 then 1 else page);
          psize = (if psize \<le> 0 then 10 else psize)
      in case invoke (Repo_GetOrders_call page psize)
                (repo_GetOrders (orderRepo s) page psize) st of
           (Inl e, st') \<Rightarrow> (Inl e, st')
         | (Inr orders, st') \<Rightarrow> (Inr orders, st'))"

section \<open>What the claims speak about\<close>

text \<open>
  The answers of a stateful lookup asked for a list of product ids one after the other
  (whatever each answer is), and the world after the last of them.
\<close>

fun lookup_results ::
  "('w, 'f, 'c) OrderService \<Rightarrow> string list \<Rightarrow> 'w \<Rightarrow> (err + 'f Product) list" where
  "lookup_results s [] w = []"
| "lookup_results s (k # ks) w =
     fst (productService_GetProductByID s k w)
     # lookup_results s ks (snd (productService_GetProductByID s k w))"

fun lookup_world :: "('w, 'f, 'c) OrderService \<Rightarrow> string list \<Rightarrow> 'w \<Rightarrow> 'w" where
  "lookup_world s [] w = w"
| "lookup_world s (k # ks) w = lookup_world s ks (snd (productService_GetProductByID s k w))"

text \<open>
  For a request handled from the world \<open>w\<close>: the world in which the product lookups
  start (the one the client lookup leaves), the answers Product Lookup gives for the
  lines of the request in submission order, and the world after them.
\<close>

definition world_after_client ::
  "('w, 'f, 'c) OrderService \<Rightarrow> CreateOrderRequest \<Rightarrow> 'w \<Rightarrow> 'w" where
  "world_after_client s dto w = snd (clientService_GetClientByCPF s (dto_Client dto) w)"

definition product_lookups ::
  "('w, 'f, 'c) OrderService \<Rightarrow> CreateOrderRequest \<Rightarrow> 'w \<Rightarrow> (err + 'f Product) list" where
  "product_lookups s dto w =
     lookup_results s (map item_ID (dto_Products dto)) (world_after_client s dto w)"

definition world_after_products ::
  "('w, 'f, 'c) OrderService \<Rightarrow> CreateOrderRequest \<Rightarrow> 'w \<Rightarrow> 'w" where
  "world_after_products s dto w =
     lookup_world s (map item_ID (dto_Products dto)) (world_after_client s dto w)"

definition all_found :: "(err + 'a) list \<Rightarrow> bool" where
  "all_found rs = list_all (\<lambda>r. \<not> isl r) rs"

text \<open>
  Unit price times quantity for one line, with the price of the answer \<open>r\<close>; and the
  sum of a list of amounts taken from the left, starting at \<open>0\<close>, which is the order in
  which the service adds them.
\<close>

definition line_amount ::
  "('w, 'f::times, 'u) Platform \<Rightarrow> err + 'f Product \<Rightarrow> ProductItem \<Rightarrow> 'f" where
  "line_amount pf r item = product_Price (projr r) * float64 pf (item_Quantity item)"

definition sum_left :: "'f::{zero,plus} list \<Rightarrow> 'f" where
  "sum_left xs = foldl (+) 0 xs"

text \<open>
  Lines that name the same product were answered with the same price.
\<close>

definition same_price_per_product :: "(err + 'f Product) list \<Rightarrow> ProductItem list \<Rightarrow> bool" where
  "same_price_per_product rs items =
     list_all (\<lambda>x.
        list_all (\<lambda>y. item_ID (snd y) = item_ID (snd x)
                     \<longrightarrow> product_Price (projr (fst y)) = product_Price (projr (fst x)))
          (zip rs items))
       (zip rs items)"

text \<open>
  Storing a price under a product id, as \<open>productPriceMap[item.ID] = product.Price\<close> does,
  and the pairs the loop stores for the answers \<open>rs\<close> to the lines \<open>items\<close>.
\<close>

definition put_price :: "(string \<rightharpoonup> 'f) \<Rightarrow> string \<times> 'f \<Rightarrow> (string \<rightharpoonup> 'f)" where
  "put_price m kv = m(fst kv \<mapsto> snd kv)"

definition priced_ids :: "(err + 'f Product) list \<Rightarrow> ProductItem list \<Rightarrow> (string \<times> 'f) list" where
  "priced_ids rs items = map2 (\<lambda>r item. (item_ID item, product_Price (projr r))) rs items"

text \<open>
  What the loop of \<open>CreateOrder\<close> has computed when every lookup of the request was
  answered: the items built from the price map, and the calls made up to then.
\<close>

definition assembled_items ::
  "('w, 'f::{zero,plus,times}, 'u) Platform \<Rightarrow> ('w, 'f, 'c) OrderService \<Rightarrow> CreateOrderRequest
     \<Rightarrow> 'w \<Rightarrow> 'f OrderItem list" where
  "assembled_items pf s dto w =
     ConvertDTOtoSlice pf (dto_Products dto)
       (foldl put_price Map.empty (priced_ids (product_lookups s dto w) (dto_Products dto)))"

definition assembled_total ::
  "('w, 'f::{zero,plus,times}, 'u) Platform \<Rightarrow> ('w, 'f, 'c) OrderService \<Rightarrow> CreateOrderRequest
     \<Rightarrow> 'w \<Rightarrow> 'f" where
  "assembled_total pf s dto w =
     sum_left (map2 (line_amount pf) (product_lookups s dto w) (dto_Products dto))"

definition lookup_calls :: "CreateOrderRequest \<Rightarrow> 'f call list" where
  "lookup_calls dto =
     GetClientByCPF_call (dto_Client dto)
     # map GetProductByID_call (map item_ID (dto_Products dto))"

section \<open>Example collaborators and requests\<close>

text \<open>
  A small shop to run the service on. The world is a counter of the calls made to the
  collaborators. Client \<open>11122233344\<close> exists, products \<open>P1\<close> (price 10.00) and \<open>P2\<close>
  (price 5.50) exist, nothing else does; the repository stores every order and holds
  none. Prices are real numbers here and \<open>float64\<close> is the embedding of the integers.
\<close>

definition demo_repo :: "(nat, real) OrderRepository" where
  "demo_repo =
     \<lparr>repo_CreateOrder = (\<lambda>order w. (Inr order, w + 1)),
      repo_GetOrderByID = (\<lambda>ident w. (Inl (ErrNew ''mongo: no documents in result''), w + 1)),
      repo_GetOrders = (\<lambda>page psize w. (Inr [], w + 1))\<rparr>"

definition demo_products :: "string \<Rightarrow> nat \<Rightarrow> (err + real Product) \<times> nat" where
  "demo_products k w =
     (if k = ''P1'' then Inr \<lparr>product_Price = 10\<rparr>
      else if k = ''P2'' then Inr \<lparr>product_Price = 5.5\<rparr>
      else Inl (ErrNew ''product not found''), w + 1)"

definition demo_clients :: "string \<Rightarrow> nat \<Rightarrow> (err + unit) \<times> nat" where
  "demo_clients cpf w =
     (if cpf = ''11122233344'' then Inr () else Inl (ErrNew ''client not found''), w + 1)"

definition demo_service :: "(nat, real, unit) OrderService" where
  "demo_service =
     \<lparr>orderRepo = demo_repo,
      clientService_GetClientByCPF = demo_clients,
      productService_GetProductByID = demo_products\<rparr>"

text \<open>
  The same shop with a price that moves while a request is handled: the first two calls
  of a request see 10.00 for every product, later calls see 20.00.
\<close>

definition drifting_products :: "string \<Rightarrow> nat \<Rightarrow> (err + real Product) \<times> nat" where
  "drifting_products k w = (Inr \<lparr>product_Price = (if w \<le> 1 then 10 else 20)\<rparr>, w + 1)"

definition drifting_service :: "(nat, real, unit) OrderService" where
  "drifting_service =
     \<lparr>orderRepo = demo_repo,
      clientService_GetClientByCPF = demo_clients,
      productService_GetProductByID = drifting_products\<rparr>"

text \<open>
  The same shop with a repository that cannot be reached.
\<close>

definition outage_repo :: "(nat, real) OrderRepository" where
  "outage_repo =
     \<lparr>repo_CreateOrder = (\<lambda>order w. (Inl (ErrNew ''connection refused''), w + 1)),
      repo_GetOrderByID = (\<lambda>ident w. (Inl (ErrNew ''connection refused''), w + 1)),
      repo_GetOrders = (\<lambda>page psize w. (Inl (ErrNew ''connection refused''), w + 1))\<rparr>"

definition outage_service :: "(nat, real, unit) OrderService" where
  "outage_service =
     \<lparr>orderRepo = outage_repo,
      clientService_GetClientByCPF = demo_clients,
      productService_GetProductByID = demo_products\<rparr>"

text \<open>
  One instance of the parameters, to run the examples on; it stands for no more than
  itself. Its UUID library accepts the 36 character form with hyphens, in either case,
  keeps the text in lower case as the parsed value and prints it as it is. Its constructor
  accepts what it is given and names the order \<open>order-1\<close>. What \<open>domain.NewOrder\<close> accepts is
  not known here: the theorems about the service are proved for every constructor, and
  this one only gives them an example to run on.
\<close>

definition hex_lower :: "char \<Rightarrow> char option" where
  "hex_lower c = map_of (zip ''0123456789abcdefABCDEF'' ''0123456789abcdefabcdef'') c"

fun demo_parse_at :: "nat \<Rightarrow> string \<Rightarrow> string option" where
  "demo_parse_at i [] = (if i = 36 then Some [] else None)"
| "demo_parse_at i (c # cs) =
     (if i = 8 \<or> i = 13 \<or> i = 18 \<or> i = 23
      then (if c = CHR ''-'' then map_option ((#) c) (demo_parse_at (i + 1) cs) else None)
      else (case hex_lower c of
              None \<Rightarrow> None
            | Some d \<Rightarrow> map_option ((#) d) (demo_parse_at (i + 1) cs)))"

definition demo_uuid_Parse :: "string \<Rightarrow> err + string" where
  "demo_uuid_Parse ident =
     (case demo_parse_at 0 ident of
        None \<Rightarrow> Inl (ErrNew ''invalid UUID format'')
      | Some u \<Rightarrow> Inr u)"

definition demo_platform :: "(nat, real, string) Platform" where
  "demo_platform =
     \<lparr>float64 = real_of_int,
      uuid_Parse = demo_uuid_Parse,
      uuid_String = (\<lambda>u. u),
      domain_NewOrder_decide = (\<lambda>client items status tot w. (Inr ''order-1'', w + 1))\<rparr>"

definition demo_request :: CreateOrderRequest where
  "demo_request =
     \<lparr>dto_Client = ''11122233344'',
      dto_Products = [\<lparr>item_ID = ''P1'', item_Quantity = 2\<rparr>, \<lparr>item_ID = ''P2'', item_Quantity = 3\<rparr>],
      dto_Status = ''pending''\<rparr>"

definition missing_product_request :: CreateOrderRequest where
  "missing_product_request =
     \<lparr>dto_Client = ''11122233344'',
      dto_Products = [\<lparr>item_ID = ''P1'', item_Quantity = 2\<rparr>, \<lparr>item_ID = ''P9'', item_Quantity = 1\<rparr>,
                      \<lparr>item_ID = ''P2'', item_Quantity = 3\<rparr>],
      dto_Status = ''pending''\<rparr>"

definition unknown_client_request :: CreateOrderRequest where
  "unknown_client_request =
     \<lparr>dto_Client = ''00000000000'',
      dto_Products = [\<lparr>item_ID = ''P1'', item_Quantity = 2\<rparr>],
      dto_Status = ''pending''\<rparr>"

definition empty_request :: CreateOrderRequest where
  "empty_request = \<lparr>dto_Client = ''11122233344'', dto_Products = [], dto_Status = ''pending''\<rparr>"

definition repeated_product_request :: CreateOrderRequest where
  "repeated_product_request =
     \<lparr>dto_Client = ''11122233344'',
      dto_Products = [\<lparr>item_ID = ''P1'', item_Quantity = 1\<rparr>, \<lparr>item_ID = ''P1'', item_Quantity = 1\<rparr>],
      dto_Status = ''pending''\<rparr>"

text \<open>
  The order expected for \<open>demo_request\<close>: line totals 20.00 and 16.50, total 36.50.
\<close>

definition demo_order :: "real Order" where
  "demo_order =
     \<lparr>order_ID = ''order-1'', order_Client = ''11122233344'',
      order_Products = [\<lparr>ProductID = ''P1'', Quantity = 2, Price = 20\<rparr>,
                        \<lparr>ProductID = ''P2'', Quantity = 3, Price = 16.5\<rparr>],
      order_Status = ''pending'', order_Total = 36.5\<rparr>"

definition empty_order :: "real Order" where
  "empty_order =
     \<lparr>order_ID = ''order-1'', order_Client = ''11122233344'', order_Products = [],
      order_Status = ''pending'', order_Total = 0\<rparr>"

section \<open>Lemmas about the embedding\<close>

text \<open>
  A call returns the collaborator's answer, leaves the collaborator's world and records itself.
\<close>

lemma invoke_eq:
  "invoke c f st = (fst (f (world st)), \<lparr>world = snd (f (world st)), trace = trace st @ [c]\<rparr>)"
  by (simp add: invoke_def split: prod.split)

lemma put_price_pair: "put_price m (k, v) = m(k \<mapsto> v)"
  by (simp add: put_price_def)

lemma NewOrder_eq:
  "NewOrder pf client items status tot w =
     (case fst (domain_NewOrder_decide pf client items status tot w) of
        Inl e \<Rightarrow> Inl e
      | Inr oid \<Rightarrow> Inr \<lparr>order_ID = oid, order_Client = client, order_Products = items,
                order_Status = status, order_Total = tot\<rparr>,
      snd (domain_NewOrder_decide pf client items status tot w))"
  by (simp add: NewOrder_def split: prod.split sum.split)

lemma NewOrder_fields:
  "fst (NewOrder pf client items status tot w) = Inr order \<Longrightarrow>
   order_Client order = client \<and> order_Products order = items \<and>
   order_Status order = status \<and> order_Total order = tot"
  by (auto simp: NewOrder_eq split: sum.splits)

lemma length_lookup_results: "length (lookup_results s ks w) = length ks"
  by (induction ks arbitrary: w) simp_all

subsection \<open>The loop over the lines\<close>

text \<open>
  When every lookup is answered the loop adds price times quantity from the left, stores
  each price under its product id and asks for the ids in submission order; at the first
  failing lookup it stops with the wrapped error, having asked for nothing beyond.
\<close>

lemma loop_all_found:
  "all_found (lookup_results s (map item_ID items) (world st)) \<Longrightarrow>
   CreateOrder_loop pf s items tot m st =
     (Inr (foldl (+) tot (map2 (line_amount pf) (lookup_results s (map item_ID items) (world st)) items),
           foldl put_price m (priced_ids (lookup_results s (map item_ID items) (world st)) items)),
      \<lparr>world = lookup_world s (map item_ID items) (world st),
       trace = trace st @ map GetProductByID_call (map item_ID items)\<rparr>)"
proof (induction items arbitrary: tot m st)
  case Nil
  then show ?case by (simp add: priced_ids_def)
next
  case (Cons item rest)
  obtain r w' where r: "productService_GetProductByID s (item_ID item) (world st) = (r, w')"
    by (cases "productService_GetProductByID s (item_ID item) (world st)")
  from Cons.prems r obtain product where p: "r = Inr product"
    by (cases r) (simp_all add: all_found_def)
  from Cons.prems r have rest: "all_found (lookup_results s (map item_ID rest) w')"
    by (simp add: all_found_def)
  show ?case
    using Cons.IH[of "\<lparr>world = w', trace = trace st @ [GetProductByID_call (item_ID item)]\<rparr>"] rest r p
    by (simp add: invoke_eq line_amount_def priced_ids_def put_price_pair)
qed

lemma loop_first_failure:
  "k < length items \<Longrightarrow>
   all_found (take k (lookup_results s (map item_ID items) (world st))) \<Longrightarrow>
   lookup_results s (map item_ID items) (world st) ! k = Inl cause \<Longrightarrow>
   CreateOrder_loop pf s items tot m st =
     (Inl (Errorf_w (''product validation failed for product ID '' @ item_ID (items ! k) @ '': '') cause),
      \<lparr>world = lookup_world s (map item_ID (take (Suc k) items)) (world st),
       trace = trace st @ map GetProductByID_call (map item_ID (take (Suc k) items))\<rparr>)"
proof (induction items arbitrary: k tot m st)
  case Nil
  then show ?case by simp
next
  case (Cons item rest)
  show ?case
  proof (cases k)
    case 0
    with Cons.prems show ?thesis by (simp add: invoke_eq split: sum.splits)
  next
    case (Suc j)
    with Cons.prems Cons.IH[of j] show ?thesis
      by (auto simp: invoke_eq all_found_def split: sum.splits)
  qed
qed

lemma loop_success_found:
  "CreateOrder_loop pf s items tot m st = (Inr x, st') \<Longrightarrow>
   all_found (lookup_results s (map item_ID items) (world st))"
proof (induction items arbitrary: tot m st)
  case Nil
  then show ?case by (simp add: all_found_def)
next
  case (Cons item rest)
  obtain r w' where r: "productService_GetProductByID s (item_ID item) (world st) = (r, w')"
    by (cases "productService_GetProductByID s (item_ID item) (world st)")
  from Cons.prems r obtain product where p: "r = Inr product"
    by (cases r) (simp_all add: invoke_eq)
  from Cons.prems r p
  have "CreateOrder_loop pf s rest (tot + product_Price product * float64 pf (item_Quantity item))
          (m(item_ID item \<mapsto> product_Price product))
          \<lparr>world = w', trace = trace st @ [GetProductByID_call (item_ID item)]\<rparr> = (Inr x, st')"
    by (simp add: invoke_eq)
  from Cons.IH[OF this] r p show ?case by (simp add: all_found_def)
qed

lemma first_failure:
  "\<not> all_found rs \<Longrightarrow> \<exists>k cause. k < length rs \<and> all_found (take k rs) \<and> rs ! k = Inl cause"
proof (induction rs)
  case Nil
  then show ?case by (simp add: all_found_def)
next
  case (Cons r rs)
  show ?case
  proof (cases r)
    case (Inl cause)
    then have "0 < length (r # rs) \<and> all_found (take 0 (r # rs)) \<and> (r # rs) ! 0 = Inl cause"
      by (simp add: all_found_def)
    then show ?thesis by blast
  next
    case (Inr p)
    with Cons.prems have "\<not> all_found rs" by (simp add: all_found_def)
    from Cons.IH[OF this] obtain k cause where
      "k < length rs" "all_found (take k rs)" "rs ! k = Inl cause" by blast
    with Inr have "Suc k < length (r # rs) \<and> all_found (take (Suc k) (r # rs))
        \<and> (r # rs) ! Suc k = Inl cause"
      by (simp add: all_found_def)
    then show ?thesis by blast
  qed
qed

subsection \<open>The price map and the line totals\<close>

lemma foldl_put_price_absent:
  "k \<notin> fst ` set kvs \<Longrightarrow> foldl put_price m kvs k = m k"
proof (induction kvs arbitrary: m)
  case Nil
  then show ?case by simp
next
  case (Cons kv kvs)
  then show ?case by (cases kv) (simp add: put_price_pair)
qed

lemma foldl_put_price_same:
  "(k, v) \<in> set kvs \<Longrightarrow> (\<forall>kv\<in>set kvs. fst kv = k \<longrightarrow> snd kv = v) \<Longrightarrow>
   foldl put_price m kvs k = Some v"
proof (induction kvs arbitrary: m)
  case Nil
  then show ?case by simp
next
  case (Cons kv kvs)
  from Cons.prems(2) have rest: "\<forall>kv\<in>set kvs. fst kv = k \<longrightarrow> snd kv = v" by simp
  show ?case
  proof (cases "k \<in> fst ` set kvs")
    case True
    then obtain kv' where kv': "kv' \<in> set kvs" "fst kv' = k" by blast
    with rest have "snd kv' = v" by blast
    with kv' have "(k, v) \<in> set kvs" by (metis prod.collapse)
    from Cons.IH[OF this rest] show ?thesis by simp
  next
    case False
    with Cons.prems(1) have "kv = (k, v)" by force
    with False show ?thesis
      by (simp add: foldl_put_price_absent put_price_pair)
  qed
qed

lemma ConvertDTOtoSlice_map:
  "ConvertDTOtoSlice pf items prices =
     map (\<lambda>item. \<lparr>ProductID = item_ID item, Quantity = item_Quantity item,
                   Price = price_at prices (item_ID item) * float64 pf (item_Quantity item)\<rparr>) items"
  by (induction items) simp_all

lemma zip_nth_mem: "length rs = length items \<Longrightarrow> i < length items \<Longrightarrow> (rs ! i, items ! i) \<in> set (zip rs items)"
proof -
  assume l: "length rs = length items" and i: "i < length items"
  then have "zip rs items ! i = (rs ! i, items ! i)" "i < length (zip rs items)" by simp_all
  then show ?thesis by (metis nth_mem)
qed

lemma same_price_nth:
  assumes "same_price_per_product rs items" "length rs = length items"
    "i < length items" "j < length items" "item_ID (items ! j) = item_ID (items ! i)"
  shows "product_Price (projr (rs ! j)) = product_Price (projr (rs ! i))"
proof -
  have i: "(rs ! i, items ! i) \<in> set (zip rs items)"
    using assms(2,3) by (rule zip_nth_mem)
  have j: "(rs ! j, items ! j) \<in> set (zip rs items)"
    using assms(2,4) by (rule zip_nth_mem)
  from assms(1) have "\<forall>x\<in>set (zip rs items). \<forall>y\<in>set (zip rs items).
      item_ID (snd y) = item_ID (snd x) \<longrightarrow> product_Price (projr (fst y)) = product_Price (projr (fst x))"
    unfolding same_price_per_product_def list_all_iff .
  from this i j have "item_ID (snd (rs ! j, items ! j)) = item_ID (snd (rs ! i, items ! i)) \<longrightarrow>
      product_Price (projr (fst (rs ! j, items ! j))) = product_Price (projr (fst (rs ! i, items ! i)))"
    by blast
  with assms(5) show ?thesis by simp
qed

lemma priced_ids_nth:
  "length rs = length items \<Longrightarrow> i < length items \<Longrightarrow>
   priced_ids rs items ! i = (item_ID (items ! i), product_Price (projr (rs ! i)))"
  by (simp add: priced_ids_def)

lemma length_priced_ids: "length rs = length items \<Longrightarrow> length (priced_ids rs items) = length items"
  by (simp add: priced_ids_def)

lemma stored_price:
  assumes "same_price_per_product rs items" "length rs = length items" "i < length items"
  shows "price_at (foldl put_price m (priced_ids rs items)) (item_ID (items ! i))
           = product_Price (projr (rs ! i))"
proof -
  define k where "k = item_ID (items ! i)"
  define v where "v = product_Price (projr (rs ! i))"
  have "priced_ids rs items ! i = (k, v)" "i < length (priced_ids rs items)"
    using assms(2,3) by (simp_all add: priced_ids_nth length_priced_ids k_def v_def)
  then have mem: "(k, v) \<in> set (priced_ids rs items)" by (metis nth_mem)
  have same: "\<forall>kv\<in>set (priced_ids rs items). fst kv = k \<longrightarrow> snd kv = v"
  proof (intro ballI impI)
    fix kv assume kv: "kv \<in> set (priced_ids rs items)" and fk: "fst kv = k"
    from kv obtain j where j: "j < length (priced_ids rs items)" "priced_ids rs items ! j = kv"
      by (metis in_set_conv_nth)
    with assms(2) have jl: "j < length items" by (simp add: length_priced_ids)
    with j assms(2) have kvj: "kv = (item_ID (items ! j), product_Price (projr (rs ! j)))"
      by (simp add: priced_ids_nth)
    with fk have "item_ID (items ! j) = item_ID (items ! i)" by (simp add: k_def)
    from same_price_nth[OF assms(1,2,3) jl this] kvj show "snd kv = v" by (simp add: v_def)
  qed
  show ?thesis
    using foldl_put_price_same[OF mem same, of m] by (simp add: price_at_def k_def v_def)
qed

lemma line_totals_eq_amounts:
  assumes "same_price_per_product rs items" "length rs = length items"
  shows "map Price (ConvertDTOtoSlice pf items (foldl put_price m (priced_ids rs items)))
           = map2 (line_amount pf) rs items"
proof (rule nth_equalityI)
  show "length (map Price (ConvertDTOtoSlice pf items (foldl put_price m (priced_ids rs items))))
          = length (map2 (line_amount pf) rs items)"
    using assms(2) by (simp add: ConvertDTOtoSlice_map)
next
  fix i
  assume "i < length (map Price (ConvertDTOtoSlice pf items (foldl put_price m (priced_ids rs items))))"
  then have i: "i < length items" by (simp add: ConvertDTOtoSlice_map)
  with assms(2) stored_price[OF assms i, of m]
  show "map Price (ConvertDTOtoSlice pf items (foldl put_price m (priced_ids rs items))) ! i
          = map2 (line_amount pf) rs items ! i"
    by (simp add: ConvertDTOtoSlice_map line_amount_def)
qed

lemma distinct_ids_same_price:
  assumes "distinct (map item_ID items)" "length rs = length items"
  shows "same_price_per_product rs items"
proof -
  have "product_Price (projr (fst y)) = product_Price (projr (fst x))"
    if x: "x \<in> set (zip rs items)" and y: "y \<in> set (zip rs items)"
      and eq: "item_ID (snd y) = item_ID (snd x)" for x y
  proof -
    from x obtain i where i: "i < length (zip rs items)" "zip rs items ! i = x"
      by (metis in_set_conv_nth)
    from y obtain j where j: "j < length (zip rs items)" "zip rs items ! j = y"
      by (metis in_set_conv_nth)
    from i j assms(2) have xi: "x = (rs ! i, items ! i)" and yj: "y = (rs ! j, items ! j)"
      and il: "i < length items" and jl: "j < length items"
      by auto
    from eq xi yj have "map item_ID items ! j = map item_ID items ! i"
      using il jl by simp
    moreover from il jl have "j < length (map item_ID items)" "i < length (map item_ID items)"
      by simp_all
    ultimately have "j = i"
      using assms(1) by (metis nth_eq_iff_index_eq)
    with xi yj show ?thesis by simp
  qed
  then show ?thesis
    unfolding same_price_per_product_def list_all_iff by blast
qed

subsection \<open>A request whose lookups are all answered\<close>

lemma CreateOrder_resolved:
  fixes pf :: "('w, 'f::{zero,plus,times}, 'u) Platform" and s :: "('w, 'f, 'c) OrderService"
  assumes client: "\<not> isl (fst (clientService_GetClientByCPF s (dto_Client dto) w))"
    and found: "all_found (product_lookups s dto w)"
  shows "CreateOrder pf s dto (init w) =
    (case invoke (NewOrder_call (dto_Client dto) (assembled_items pf s dto w) (dto_Status dto)
                    (assembled_total pf s dto w))
            (NewOrder pf (dto_Client dto) (assembled_items pf s dto w) (dto_Status dto)
               (assembled_total pf s dto w))
            \<lparr>world = world_after_products s dto w, trace = lookup_calls dto\<rparr> of
       (Inl e, st3) \<Rightarrow> (Inl (Errorf_w ''failed to create order instance: '' e), st3)
     | (Inr order, st3) \<Rightarrow>
         (case invoke (Repo_CreateOrder_call order) (repo_CreateOrder (orderRepo s) order) st3 of
            (Inl e, st4) \<Rightarrow> (Inl (Errorf_w ''failed to save order: '' e), st4)
          | (Inr savedOrder, st4) \<Rightarrow> (Inr savedOrder, st4)))"
proof -
  obtain r w1 where r: "clientService_GetClientByCPF s (dto_Client dto) w = (r, w1)"
    by (cases "clientService_GetClientByCPF s (dto_Client dto) w")
  with client obtain c where "r = Inr c" by (cases r) simp_all
  with r have c: "clientService_GetClientByCPF s (dto_Client dto) w = (Inr c, w1)" by simp
  then have w1: "world_after_client s dto w = w1" by (simp add: world_after_client_def)
  let ?st1 = "\<lparr>world = w1, trace = [GetClientByCPF_call (dto_Client dto)]\<rparr> :: ('w, 'f) state"
  have f: "all_found (lookup_results s (map item_ID (dto_Products dto)) (world ?st1))"
    using found w1 by (simp add: product_lookups_def)
  have loop: "CreateOrder_loop pf s (dto_Products dto) 0 Map.empty ?st1 =
      (Inr (assembled_total pf s dto w,
            foldl put_price Map.empty (priced_ids (product_lookups s dto w) (dto_Products dto))),
       \<lparr>world = world_after_products s dto w, trace = lookup_calls dto\<rparr>)"
    using loop_all_found[OF f, of pf 0 Map.empty] w1
    by (simp add: assembled_total_def sum_left_def product_lookups_def world_after_products_def
        lookup_calls_def)
  show ?thesis
    unfolding CreateOrder_def
    by (simp add: invoke_eq[of "GetClientByCPF_call (dto_Client dto)"] c init_def loop
        assembled_items_def Let_def)
qed

lemma trace_resolved:
  fixes pf :: "('w, 'f::{zero,plus,times}, 'u) Platform" and s :: "('w, 'f, 'c) OrderService"
  assumes client: "\<not> isl (fst (clientService_GetClientByCPF s (dto_Client dto) w))"
    and found: "all_found (product_lookups s dto w)"
  shows "\<exists>rest. trace (snd (CreateOrder pf s dto (init w))) =
           lookup_calls dto
           @ NewOrder_call (dto_Client dto) (assembled_items pf s dto w) (dto_Status dto)
               (assembled_total pf s dto w) # rest
         \<and> (rest = [] \<or> (\<exists>order. rest = [Repo_CreateOrder_call order] \<and>
               fst (NewOrder pf (dto_Client dto) (assembled_items pf s dto w) (dto_Status dto)
                      (assembled_total pf s dto w) (world_after_products s dto w)) = Inr order))"
  unfolding CreateOrder_resolved[OF client found]
  by (simp add: invoke_eq split: sum.split)

lemma CreateOrder_product_failed:
  fixes pf :: "('w, 'f::{zero,plus,times}, 'u) Platform" and s :: "('w, 'f, 'c) OrderService"
  assumes client: "\<not> isl (fst (clientService_GetClientByCPF s (dto_Client dto) w))"
    and k: "k < length (dto_Products dto)"
    and before: "all_found (take k (product_lookups s dto w))"
    and failed: "product_lookups s dto w ! k = Inl cause"
  shows "CreateOrder pf s dto (init w) =
    (Inl (Errorf_w (''product validation failed for product ID ''
                     @ item_ID (dto_Products dto ! k) @ '': '') cause),
     \<lparr>world = lookup_world s (map item_ID (take (Suc k) (dto_Products dto)))
                (world_after_client s dto w),
      trace = GetClientByCPF_call (dto_Client dto)
              # map GetProductByID_call (map item_ID (take (Suc k) (dto_Products dto)))\<rparr>)"
proof -
  obtain r w1 where r: "clientService_GetClientByCPF s (dto_Client dto) w = (r, w1)"
    by (cases "clientService_GetClientByCPF s (dto_Client dto) w")
  with client obtain c where "r = Inr c" by (cases r) simp_all
  with r have c: "clientService_GetClientByCPF s (dto_Client dto) w = (Inr c, w1)" by simp
  then have w1: "world_after_client s dto w = w1" by (simp add: world_after_client_def)
  let ?st1 = "\<lparr>world = w1, trace = [GetClientByCPF_call (dto_Client dto)]\<rparr> :: ('w, 'f) state"
  have b: "all_found (take k (lookup_results s (map item_ID (dto_Products dto)) (world ?st1)))"
    using before w1 by (simp add: product_lookups_def)
  have f: "lookup_results s (map item_ID (dto_Products dto)) (world ?st1) ! k = Inl cause"
    using failed w1 by (simp add: product_lookups_def)
  show ?thesis
    unfolding CreateOrder_def
    using loop_first_failure[OF k b f, of pf 0 Map.empty] w1
    by (simp add: invoke_eq[of "GetClientByCPF_call (dto_Client dto)"] c init_def)
qed

subsection \<open>Running the examples\<close>

lemmas demo_simps =
  demo_service_def demo_repo_def demo_products_def demo_clients_def demo_platform_def
  drifting_service_def drifting_products_def outage_service_def outage_repo_def
  demo_request_def missing_product_request_def unknown_client_request_def empty_request_def
  repeated_product_request_def
  product_lookups_def world_after_client_def world_after_products_def all_found_def

lemmas run_simps =
  CreateOrder_def GetOrderByID_def GetOrders_def invoke_def init_def NewOrder_def Errorf_w_def
  price_at_def Let_def

lemma demo_parse_lower:
  "demo_uuid_Parse ''123e4567-e89b-12d3-a456-426614174000'' = Inr ''123e4567-e89b-12d3-a456-426614174000''"
  by (simp add: demo_uuid_Parse_def hex_lower_def)

lemma demo_parse_upper:
  "demo_uuid_Parse ''123E4567-E89B-12D3-A456-426614174000'' = Inr ''123e4567-e89b-12d3-a456-426614174000''"
  by (simp add: demo_uuid_Parse_def hex_lower_def)

lemma demo_parse_bad:
  "demo_uuid_Parse ''not-a-uuid'' = Inl (ErrNew ''invalid UUID format'')"
  by (simp add: demo_uuid_Parse_def hex_lower_def)

lemma demo_request_run:
  "CreateOrder demo_platform demo_service demo_request (init 0) =
     (Inr demo_order,
      \<lparr>world = 5,
       trace = [GetClientByCPF_call ''11122233344'', GetProductByID_call ''P1'',
                GetProductByID_call ''P2'',
                NewOrder_call ''11122233344'' (order_Products demo_order) ''pending'' 36.5,
                Repo_CreateOrder_call demo_order]\<rparr>)"
  by (simp add: demo_simps run_simps demo_order_def)

section \<open>The claims\<close>

subsection \<open>C1: the total of the order\<close>

text \<open>
  Claim C1. When the client lookup succeeds and every product lookup of the request
  succeeds, the total of the constructed Order is the sum over the lines of the unit
  price Product Lookup returned for that line times the quantity of the line, and it is
  the sum of the line totals stored in the items of the Order.

  The service breaks the second equality. It computes price times quantity twice: once
  in the loop, from the price of the lookup just made, for the total; and once in
  \<open>ConvertDTOtoSlice\<close>, from \<open>productPriceMap\<close>, for the line total. The map holds one price
  per product id, the last one stored. For a request naming \<open>P1\<close> on two lines with
  quantity 1, answered with 10.00 and then 20.00, the constructor is handed the total 30
  (which is the sum of price times quantity over the lookups) together with two items
  of line total 20, whose sum is 40; and this whatever the constructor then decides.
\<close>

theorem order_total_differs_on_repeated_product:
  "product_lookups drifting_service repeated_product_request 0
     = [Inr \<lparr>product_Price = 10\<rparr>, Inr \<lparr>product_Price = 20\<rparr>]
   \<and> NewOrder_call ''11122233344''
        [\<lparr>ProductID = ''P1'', Quantity = 1, Price = 20\<rparr>,
         \<lparr>ProductID = ''P1'', Quantity = 1, Price = 20\<rparr>] ''pending'' 30
      \<in> set (trace (snd (CreateOrder (demo_platform\<lparr>domain_NewOrder_decide := decide\<rparr>)
                            drifting_service repeated_product_request (init 0))))
   \<and> sum_left (map2 (line_amount (demo_platform\<lparr>domain_NewOrder_decide := decide\<rparr>))
                 (product_lookups drifting_service repeated_product_request 0)
                 (dto_Products repeated_product_request)) = 30
   \<and> sum_left (map Price [\<lparr>ProductID = ''P1'', Quantity = 1, Price = 20\<rparr>,
                           \<lparr>ProductID = ''P1'', Quantity = 1, Price = (20::real)\<rparr>]) = 40"
  by (simp add: demo_simps run_simps sum_left_def line_amount_def split: sum.split prod.split)

text \<open>
  With the example constructor, which accepts, this is the order that is constructed and
  sent to the repository.
\<close>

lemma repeated_product_order_as_constructed:
  "fst (CreateOrder demo_platform drifting_service repeated_product_request (init 0))
       = Inr \<lparr>order_ID = ''order-1'', order_Client = ''11122233344'',
              order_Products = [\<lparr>ProductID = ''P1'', Quantity = 1, Price = 20\<rparr>,
                                \<lparr>ProductID = ''P1'', Quantity = 1, Price = 20\<rparr>],
              order_Status = ''pending'', order_Total = 30\<rparr>
   \<and> order_Total (projr (fst (CreateOrder demo_platform drifting_service repeated_product_request (init 0))))
       \<noteq> sum_left (map Price (order_Products
             (projr (fst (CreateOrder demo_platform drifting_service repeated_product_request (init 0))))))"
  by (simp add: demo_simps run_simps sum_left_def)

text \<open>
  Where the two computations agree. The total handed to the constructor is always the sum
  over the lines of looked-up price times quantity, and an order handed to the repository
  carries the total and the items the constructor was given. The total is the sum of the
  line totals when lines naming the same product were answered with the same price, as
  they are when the product ids of the request are distinct. The sums are taken in
  submission order, so the equalities are exact for any arithmetic, floating point
  included.
\<close>

lemma order_total_is_sum_of_lines:
  fixes pf :: "('w, 'f::{zero,plus,times}, 'u) Platform" and s :: "('w, 'f, 'c) OrderService"
  assumes client: "\<not> isl (fst (clientService_GetClientByCPF s (dto_Client dto) w))"
    and found: "all_found (product_lookups s dto w)"
  shows "\<exists>items tot.
      NewOrder_call (dto_Client dto) items (dto_Status dto) tot
        \<in> set (trace (snd (CreateOrder pf s dto (init w))))
    \<and> tot = sum_left (map2 (line_amount pf) (product_lookups s dto w) (dto_Products dto))
    \<and> (same_price_per_product (product_lookups s dto w) (dto_Products dto)
         \<longrightarrow> tot = sum_left (map Price items))
    \<and> (\<forall>order. Repo_CreateOrder_call order \<in> set (trace (snd (CreateOrder pf s dto (init w))))
         \<longrightarrow> order_Total order = tot \<and> order_Products order = items)"
proof (intro exI conjI allI impI)
  from trace_resolved[OF client found, of pf]
  obtain rest where tr: "trace (snd (CreateOrder pf s dto (init w))) =
           lookup_calls dto
           @ NewOrder_call (dto_Client dto) (assembled_items pf s dto w) (dto_Status dto)
               (assembled_total pf s dto w) # rest"
    and rest: "rest = [] \<or> (\<exists>order. rest = [Repo_CreateOrder_call order] \<and>
               fst (NewOrder pf (dto_Client dto) (assembled_items pf s dto w) (dto_Status dto)
                      (assembled_total pf s dto w) (world_after_products s dto w)) = Inr order)"
    by blast
  show "NewOrder_call (dto_Client dto) (assembled_items pf s dto w) (dto_Status dto)
          (assembled_total pf s dto w) \<in> set (trace (snd (CreateOrder pf s dto (init w))))"
    by (simp add: tr)
  show "assembled_total pf s dto w
          = sum_left (map2 (line_amount pf) (product_lookups s dto w) (dto_Products dto))"
    by (simp add: assembled_total_def)
  {
    assume same: "same_price_per_product (product_lookups s dto w) (dto_Products dto)"
    have len: "length (product_lookups s dto w) = length (dto_Products dto)"
      by (simp add: product_lookups_def length_lookup_results)
    show "assembled_total pf s dto w = sum_left (map Price (assembled_items pf s dto w))"
      unfolding assembled_total_def assembled_items_def line_totals_eq_amounts[OF same len] ..
  }
  {
    fix order
    assume "Repo_CreateOrder_call order \<in> set (trace (snd (CreateOrder pf s dto (init w))))"
    with tr rest have "fst (NewOrder pf (dto_Client dto) (assembled_items pf s dto w) (dto_Status dto)
                      (assembled_total pf s dto w) (world_after_products s dto w)) = Inr order"
      by (auto simp: lookup_calls_def)
    from NewOrder_fields[OF this]
    show "order_Total order = assembled_total pf s dto w"
      and "order_Products order = assembled_items pf s dto w" by simp_all
  }
qed

lemma order_total_is_sum_of_lines_distinct:
  fixes pf :: "('w, 'f::{zero,plus,times}, 'u) Platform" and s :: "('w, 'f, 'c) OrderService"
  assumes client: "\<not> isl (fst (clientService_GetClientByCPF s (dto_Client dto) w))"
    and found: "all_found (product_lookups s dto w)"
    and dist: "distinct (map item_ID (dto_Products dto))"
  shows "assembled_total pf s dto w = sum_left (map Price (assembled_items pf s dto w))"
proof -
  have len: "length (product_lookups s dto w) = length (dto_Products dto)"
    by (simp add: product_lookups_def length_lookup_results)
  from distinct_ids_same_price[OF dist len]
  have same: "same_price_per_product (product_lookups s dto w) (dto_Products dto)" .
  show ?thesis
    unfolding assembled_total_def assembled_items_def line_totals_eq_amounts[OF same len] ..
qed

lemma order_total_is_sum_of_lines_example:
  "\<not> isl (fst (clientService_GetClientByCPF demo_service (dto_Client demo_request) 0))
   \<and> all_found (product_lookups demo_service demo_request 0)
   \<and> same_price_per_product (product_lookups demo_service demo_request 0) (dto_Products demo_request)
   \<and> Repo_CreateOrder_call demo_order
        \<in> set (trace (snd (CreateOrder demo_platform demo_service demo_request (init 0))))
   \<and> order_Total demo_order
        = sum_left (map2 (line_amount demo_platform) (product_lookups demo_service demo_request 0)
                      (dto_Products demo_request))
   \<and> order_Total demo_order = sum_left (map Price (order_Products demo_order))
   \<and> order_Total demo_order = 36.5"
proof -
  have h1: "\<not> isl (fst (clientService_GetClientByCPF demo_service (dto_Client demo_request) 0))"
    by (simp add: demo_simps)
  have h2: "all_found (product_lookups demo_service demo_request 0)"
    by (simp add: demo_simps)
  have h3: "same_price_per_product (product_lookups demo_service demo_request 0) (dto_Products demo_request)"
    by (simp add: demo_simps same_price_per_product_def)
  have mem: "Repo_CreateOrder_call demo_order
        \<in> set (trace (snd (CreateOrder demo_platform demo_service demo_request (init 0))))"
    by (simp add: demo_request_run)
  from order_total_is_sum_of_lines[OF h1 h2, of demo_platform]
  obtain items tot where
    a: "tot = sum_left (map2 (line_amount demo_platform) (product_lookups demo_service demo_request 0)
                      (dto_Products demo_request))"
    and b: "same_price_per_product (product_lookups demo_service demo_request 0) (dto_Products demo_request)
         \<longrightarrow> tot = sum_left (map Price items)"
    and c: "\<forall>order. Repo_CreateOrder_call order
               \<in> set (trace (snd (CreateOrder demo_platform demo_service demo_request (init 0))))
         \<longrightarrow> order_Total order = tot \<and> order_Products order = items"
    by blast
  from c mem have d: "order_Total demo_order = tot" "order_Products demo_order = items" by blast+
  from b h3 have e: "tot = sum_left (map Price items)" by blast
  have f: "order_Total demo_order = 36.5" by (simp add: demo_order_def)
  from h1 h2 h3 mem a d e f show ?thesis by simp
qed

subsection \<open>C2: the first failing product lookup\<close>

text \<open>
  Claim C2. If the lookup of the product at position \<open>k\<close> (counted from 0 here) fails
  with \<open>cause\<close> while the lookups before it succeed, \<open>CreateOrder\<close> returns the error
  "product validation failed for product ID <id>: <cause>" naming the id of that line and
  wrapping \<open>cause\<close>; the calls made are the client lookup and the product lookups up to
  and including position \<open>k\<close>, so no later product is looked up and the repository is
  never asked to create the order.
\<close>

theorem product_lookup_failure_is_fail_fast:
  fixes pf :: "('w, 'f::{zero,plus,times}, 'u) Platform" and s :: "('w, 'f, 'c) OrderService"
  assumes client: "\<not> isl (fst (clientService_GetClientByCPF s (dto_Client dto) w))"
    and k: "k < length (dto_Products dto)"
    and before: "all_found (take k (product_lookups s dto w))"
    and failed: "product_lookups s dto w ! k = Inl cause"
  shows "fst (CreateOrder pf s dto (init w))
           = Inl (Errorf_w (''product validation failed for product ID ''
                             @ item_ID (dto_Products dto ! k) @ '': '') cause)
    \<and> Error (projl (fst (CreateOrder pf s dto (init w))))
           = ''product validation failed for product ID '' @ item_ID (dto_Products dto ! k)
             @ '': '' @ Error cause
    \<and> Unwrap (projl (fst (CreateOrder pf s dto (init w)))) = Some cause
    \<and> trace (snd (CreateOrder pf s dto (init w)))
           = GetClientByCPF_call (dto_Client dto)
             # map GetProductByID_call (map item_ID (take (Suc k) (dto_Products dto)))
    \<and> (\<forall>order. Repo_CreateOrder_call order \<notin> set (trace (snd (CreateOrder pf s dto (init w)))))"
  unfolding CreateOrder_product_failed[OF client k before failed]
  by (auto simp: Errorf_w_def)

theorem product_lookup_failure_is_fail_fast_witness:
  "\<not> isl (fst (clientService_GetClientByCPF demo_service (dto_Client missing_product_request) 0))
   \<and> Suc 0 < length (dto_Products missing_product_request)
   \<and> all_found (take (Suc 0) (product_lookups demo_service missing_product_request 0))
   \<and> product_lookups demo_service missing_product_request 0 ! Suc 0 = Inl (ErrNew ''product not found'')
   \<and> fst (CreateOrder demo_platform demo_service missing_product_request (init 0))
       = Inl (WrapError ''product validation failed for product ID P9: product not found''
                (ErrNew ''product not found''))
   \<and> trace (snd (CreateOrder demo_platform demo_service missing_product_request (init 0)))
       = [GetClientByCPF_call ''11122233344'', GetProductByID_call ''P1'', GetProductByID_call ''P9'']"
proof -
  have h1: "\<not> isl (fst (clientService_GetClientByCPF demo_service (dto_Client missing_product_request) 0))"
    by (simp add: demo_simps)
  have h2: "Suc 0 < length (dto_Products missing_product_request)"
    by (simp add: demo_simps)
  have h3: "all_found (take (Suc 0) (product_lookups demo_service missing_product_request 0))"
    by (simp add: demo_simps)
  have h4: "product_lookups demo_service missing_product_request 0 ! Suc 0 = Inl (ErrNew ''product not found'')"
    by (simp add: demo_simps)
  from product_lookup_failure_is_fail_fast[OF h1 h2 h3 h4, of demo_platform] h1 h2 h3 h4
  show ?thesis
    by (simp add: Errorf_w_def missing_product_request_def)
qed

subsection \<open>C3: a failing client lookup\<close>

text \<open>
  Claim C3. If the client lookup fails with \<open>cause\<close>, \<open>CreateOrder\<close> returns
  "client validation failed: <cause>" wrapping \<open>cause\<close>, and the client lookup is the
  only call made: no product is looked up and the repository is not reached.
\<close>

theorem client_lookup_failure_aborts:
  fixes pf :: "('w, 'f::{zero,plus,times}, 'u) Platform" and s :: "('w, 'f, 'c) OrderService"
  assumes failed: "fst (clientService_GetClientByCPF s (dto_Client dto) w) = Inl cause"
  shows "fst (CreateOrder pf s dto (init w)) = Inl (Errorf_w ''client validation failed: '' cause)
    \<and> Error (projl (fst (CreateOrder pf s dto (init w)))) = ''client validation failed: '' @ Error cause
    \<and> Unwrap (projl (fst (CreateOrder pf s dto (init w)))) = Some cause
    \<and> trace (snd (CreateOrder pf s dto (init w))) = [GetClientByCPF_call (dto_Client dto)]
    \<and> world (snd (CreateOrder pf s dto (init w))) = world_after_client s dto w"
  using failed
  by (simp add: CreateOrder_def invoke_eq init_def Errorf_w_def world_after_client_def)

theorem client_lookup_failure_aborts_witness:
  "fst (clientService_GetClientByCPF demo_service (dto_Client unknown_client_request) 0)
     = Inl (ErrNew ''client not found'')
   \<and> fst (CreateOrder demo_platform demo_service unknown_client_request (init 0))
       = Inl (WrapError ''client validation failed: client not found'' (ErrNew ''client not found''))
   \<and> trace (snd (CreateOrder demo_platform demo_service unknown_client_request (init 0)))
       = [GetClientByCPF_call ''00000000000'']"
proof -
  have h: "fst (clientService_GetClientByCPF demo_service (dto_Client unknown_client_request) 0)
     = Inl (ErrNew ''client not found'')"
    by (simp add: demo_simps)
  from client_lookup_failure_aborts[OF h, of demo_platform] h show ?thesis
    by (simp add: Errorf_w_def unknown_client_request_def)
qed

subsection \<open>C4: pagination\<close>

text \<open>
  Claim C4. For all integers \<open>page\<close> and \<open>psize\<close>, \<open>GetOrders\<close> makes exactly one
  call, to the repository, with \<open>page\<close> replaced by 1 when it is not positive and
  \<open>psize\<close> replaced by 10 when it is not positive; what it returns, value or error, is
  what the repository returned, unchanged. So \<open>GetOrders 0 (-5)\<close> is \<open>GetOrders 1 10\<close>.
\<close>

theorem GetOrders_normalizes_pagination:
  "fst (GetOrders s page psize st)
     = fst (repo_GetOrders (orderRepo s) (if page \<le> 0 then 1 else page)
              (if psize \<le> 0 then 10 else psize) (world st))
   \<and> world (snd (GetOrders s page psize st))
     = snd (repo_GetOrders (orderRepo s) (if page \<le> 0 then 1 else page)
              (if psize \<le> 0 then 10 else psize) (world st))
   \<and> trace (snd (GetOrders s page psize st))
     = trace st @ [Repo_GetOrders_call (if page \<le> 0 then 1 else page)
                     (if psize \<le> 0 then 10 else psize)]
   \<and> GetOrders s 0 (- 5) st = GetOrders s 1 10 st"
  by (simp add: GetOrders_def invoke_eq Let_def split: sum.split)

theorem GetOrders_normalizes_pagination_witness:
  "GetOrders demo_service 0 (- 5) (init 0) = GetOrders demo_service 1 10 (init 0)
   \<and> fst (GetOrders demo_service 0 (- 5) (init 0)) = Inr []
   \<and> trace (snd (GetOrders demo_service 0 (- 5) (init 0))) = [Repo_GetOrders_call 1 10]"
proof -
  note n = GetOrders_normalizes_pagination[of demo_service 0 "- 5" "init 0"]
  from n have a: "GetOrders demo_service 0 (- 5) (init 0) = GetOrders demo_service 1 10 (init 0)"
    by blast
  from n[THEN conjunct1]
  have b: "fst (GetOrders demo_service 0 (- 5) (init 0)) = Inr []"
    by (simp add: demo_service_def demo_repo_def)
  from n[THEN conjunct2, THEN conjunct2, THEN conjunct1]
  have c: "trace (snd (GetOrders demo_service 0 (- 5) (init 0))) = [Repo_GetOrders_call 1 10]"
    by (simp add: init_def)
  from a b c show ?thesis by blast
qed

subsection \<open>C5: a malformed identifier\<close>

text \<open>
  Claim C5. If the identifier does not parse as a UUID, \<open>GetOrderByID\<close> returns
  "invalid ID format: <cause>" wrapping the parse failure, and the state is the one it
  started from: no call is made, the repository is not contacted.
\<close>

theorem GetOrderByID_rejects_malformed_id:
  assumes "uuid_Parse pf ident = Inl cause"
  shows "GetOrderByID pf s ident st = (Inl (Errorf_w ''invalid ID format: '' cause), st)
    \<and> Error (projl (fst (GetOrderByID pf s ident st))) = ''invalid ID format: '' @ Error cause
    \<and> Unwrap (projl (fst (GetOrderByID pf s ident st))) = Some cause"
  using assms by (simp add: GetOrderByID_def Errorf_w_def)

theorem GetOrderByID_rejects_malformed_id_witness:
  "uuid_Parse demo_platform ''not-a-uuid'' = Inl (ErrNew ''invalid UUID format'')
   \<and> GetOrderByID demo_platform demo_service ''not-a-uuid'' (init 0)
       = (Inl (WrapError ''invalid ID format: invalid UUID format'' (ErrNew ''invalid UUID format'')),
          init 0)"
proof -
  have h: "uuid_Parse demo_platform ''not-a-uuid'' = Inl (ErrNew ''invalid UUID format'')"
    by (simp add: demo_platform_def demo_parse_bad)
  from GetOrderByID_rejects_malformed_id[OF h, of demo_service "init 0"] h show ?thesis
    by (simp add: Errorf_w_def)
qed

subsection \<open>C6: errors of the repository on a lookup by id\<close>




subsection \<open>C7: an empty product list\<close>

text \<open>
  Claim C7. A request with no product lines is not refused by \<open>CreateOrder\<close> itself:
  after the client lookup it calls the constructor with no items and total 0. If the
  constructor fails, the answer is "failed to create order instance: ..."; if it
  succeeds, the order with no items and total 0 is handed to the repository and the
  answer is the repository's (its error wrapped as "failed to save order: ...").
\<close>

theorem empty_product_list_reaches_constructor:
  fixes pf :: "('w, 'f::{zero,plus,times}, 'u) Platform" and s :: "('w, 'f, 'c) OrderService"
  assumes empty: "dto_Products dto = []"
    and client: "\<not> isl (fst (clientService_GetClientByCPF s (dto_Client dto) w))"
  shows "take 2 (trace (snd (CreateOrder pf s dto (init w))))
           = [GetClientByCPF_call (dto_Client dto),
              NewOrder_call (dto_Client dto) [] (dto_Status dto) 0]
    \<and> (\<forall>e. fst (NewOrder pf (dto_Client dto) [] (dto_Status dto) 0 (world_after_client s dto w)) = Inl e
          \<longrightarrow> fst (CreateOrder pf s dto (init w))
                = Inl (Errorf_w ''failed to create order instance: '' e))
    \<and> (\<forall>order. fst (NewOrder pf (dto_Client dto) [] (dto_Status dto) 0 (world_after_client s dto w)) = Inr order
          \<longrightarrow> order_Products order = [] \<and> order_Total order = 0
              \<and> trace (snd (CreateOrder pf s dto (init w)))
                  = [GetClientByCPF_call (dto_Client dto),
                     NewOrder_call (dto_Client dto) [] (dto_Status dto) 0,
                     Repo_CreateOrder_call order]
              \<and> fst (CreateOrder pf s dto (init w))
                  = (case fst (repo_CreateOrder (orderRepo s) order
                                 (snd (NewOrder pf (dto_Client dto) [] (dto_Status dto) 0
                                         (world_after_client s dto w)))) of
                       Inl e \<Rightarrow> Inl (Errorf_w ''failed to save order: '' e)
                     | Inr savedOrder \<Rightarrow> Inr savedOrder))"
proof -
  have found: "all_found (product_lookups s dto w)"
    by (simp add: product_lookups_def all_found_def empty)
  have items: "assembled_items pf s dto w = []"
    by (simp add: assembled_items_def empty)
  have tot: "assembled_total pf s dto w = 0"
    by (simp add: assembled_total_def sum_left_def empty)
  have wp: "world_after_products s dto w = world_after_client s dto w"
    by (simp add: world_after_products_def empty)
  have calls: "lookup_calls dto = [GetClientByCPF_call (dto_Client dto) :: 'f call]"
    by (simp add: lookup_calls_def empty)
  show ?thesis
    unfolding CreateOrder_resolved[OF client found] items tot wp calls
    by (auto simp: invoke_eq dest: NewOrder_fields split: sum.splits)
qed

theorem empty_product_list_reaches_constructor_witness:
  "dto_Products empty_request = []
   \<and> \<not> isl (fst (clientService_GetClientByCPF demo_service (dto_Client empty_request) 0))
   \<and> fst (NewOrder demo_platform (dto_Client empty_request) [] (dto_Status empty_request) 0
            (world_after_client demo_service empty_request 0)) = Inr empty_order
   \<and> trace (snd (CreateOrder demo_platform demo_service empty_request (init 0)))
       = [GetClientByCPF_call ''11122233344'', NewOrder_call ''11122233344'' [] ''pending'' 0,
          Repo_CreateOrder_call empty_order]
   \<and> fst (CreateOrder demo_platform demo_service empty_request (init 0)) = Inr empty_order"
proof -
  have h1: "dto_Products empty_request = []" by (simp add: empty_request_def)
  have h2: "\<not> isl (fst (clientService_GetClientByCPF demo_service (dto_Client empty_request) 0))"
    by (simp add: demo_simps)
  have h3: "fst (NewOrder demo_platform (dto_Client empty_request) [] (dto_Status empty_request) 0
            (world_after_client demo_service empty_request 0)) = Inr empty_order"
    by (simp add: demo_simps NewOrder_def empty_order_def)
  have r: "fst (repo_CreateOrder (orderRepo demo_service) empty_order w) = Inr empty_order" for w
    by (simp add: demo_service_def demo_repo_def)
  from empty_product_list_reaches_constructor[OF h1 h2, of demo_platform] h3
  have "trace (snd (CreateOrder demo_platform demo_service empty_request (init 0)))
                  = [GetClientByCPF_call (dto_Client empty_request),
                     NewOrder_call (dto_Client empty_request) [] (dto_Status empty_request) 0,
                     Repo_CreateOrder_call empty_order]"
    and "fst (CreateOrder demo_platform demo_service empty_request (init 0))
                  = (case fst (repo_CreateOrder (orderRepo demo_service) empty_order
                                 (snd (NewOrder demo_platform (dto_Client empty_request) []
                                         (dto_Status empty_request) 0
                                         (world_after_client demo_service empty_request 0)))) of
                       Inl e \<Rightarrow> Inl (Errorf_w ''failed to save order: '' e)
                     | Inr savedOrder \<Rightarrow> Inr savedOrder)"
    by blast+
  with h1 h2 h3 r show ?thesis by (simp add: empty_request_def)
qed

subsection \<open>C8: quantities that are not positive\<close>

text \<open>
  Claim C8. A request with a line whose quantity is not positive is answered with an
  error and no order is constructed and persisted.

  This is left open. \<open>CreateOrder\<close> and \<open>ConvertDTOtoSlice\<close> never test a quantity: they
  convert it, multiply by it and copy it into the item. So the claim is decided by what
  \<open>domain.NewOrder\<close> does with such items, and the constructor is not among the sources.
  The two lemmas say how the answer follows the constructor: if the constructor refuses
  every list holding an item whose quantity is not positive, the request is answered with
  an error and the repository is not reached; and if the constructor and the other
  collaborators succeed, the request succeeds with the quantities as submitted.
\<close>

lemma quantity_not_positive_with_refusing_constructor:
  fixes pf :: "('w, 'f::{zero,plus,times}, 'u) Platform" and s :: "('w, 'f, 'c) OrderService"
  assumes refuse: "\<And>client items status tot w'.
      list_ex (\<lambda>it. Quantity it \<le> 0) items \<Longrightarrow>
      isl (fst (domain_NewOrder_decide pf client items status tot w'))"
    and bad: "list_ex (\<lambda>item. item_Quantity item \<le> 0) (dto_Products dto)"
  shows "isl (fst (CreateOrder pf s dto (init w)))
    \<and> (\<forall>order. Repo_CreateOrder_call order \<notin> set (trace (snd (CreateOrder pf s dto (init w)))))"
proof (cases "isl (fst (clientService_GetClientByCPF s (dto_Client dto) w))")
  case True
  then obtain e where "fst (clientService_GetClientByCPF s (dto_Client dto) w) = Inl e"
    by (cases "fst (clientService_GetClientByCPF s (dto_Client dto) w)") simp_all
  then show ?thesis
    by (simp add: CreateOrder_def invoke_eq init_def)
next
  case client: False
  show ?thesis
  proof (cases "all_found (product_lookups s dto w)")
    case found: True
    have "list_ex (\<lambda>it. Quantity it \<le> 0) (assembled_items pf s dto w)"
      using bad by (simp add: assembled_items_def ConvertDTOtoSlice_map list_ex_iff)
    from refuse[OF this, of "dto_Client dto" "dto_Status dto" "assembled_total pf s dto w"
        "world_after_products s dto w"]
    have "isl (fst (domain_NewOrder_decide pf (dto_Client dto) (assembled_items pf s dto w)
              (dto_Status dto) (assembled_total pf s dto w) (world_after_products s dto w)))" .
    then obtain e where
      "fst (domain_NewOrder_decide pf (dto_Client dto) (assembled_items pf s dto w) (dto_Status dto)
              (assembled_total pf s dto w) (world_after_products s dto w)) = Inl e"
      by (cases "fst (domain_NewOrder_decide pf (dto_Client dto) (assembled_items pf s dto w)
              (dto_Status dto) (assembled_total pf s dto w) (world_after_products s dto w))")
        simp_all
    then have "fst (NewOrder pf (dto_Client dto) (assembled_items pf s dto w) (dto_Status dto)
              (assembled_total pf s dto w) (world_after_products s dto w)) = Inl e"
      by (simp add: NewOrder_eq)
    then show ?thesis
      unfolding CreateOrder_resolved[OF client found]
      by (auto simp: invoke_eq lookup_calls_def)
  next
    case False
    from first_failure[OF this] obtain k cause where
      k: "k < length (product_lookups s dto w)"
      and before: "all_found (take k (product_lookups s dto w))"
      and failed: "product_lookups s dto w ! k = Inl cause"
      by blast
    from k have k': "k < length (dto_Products dto)"
      by (simp add: product_lookups_def length_lookup_results)
    show ?thesis
      unfolding CreateOrder_product_failed[OF client k' before failed]
      by auto
  qed
qed

lemma quantity_is_not_checked:
  fixes pf :: "('w, 'f::{zero,plus,times}, 'u) Platform" and s :: "('w, 'f, 'c) OrderService"
  assumes client: "\<not> isl (fst (clientService_GetClientByCPF s (dto_Client dto) w))"
    and found: "all_found (product_lookups s dto w)"
    and constructed: "fst (NewOrder pf (dto_Client dto) (assembled_items pf s dto w) (dto_Status dto)
                        (assembled_total pf s dto w) (world_after_products s dto w)) = Inr order"
    and saved: "fst (repo_CreateOrder (orderRepo s) order
                  (snd (NewOrder pf (dto_Client dto) (assembled_items pf s dto w) (dto_Status dto)
                          (assembled_total pf s dto w) (world_after_products s dto w)))) = Inr savedOrder"
  shows "fst (CreateOrder pf s dto (init w)) = Inr savedOrder
    \<and> Repo_CreateOrder_call order \<in> set (trace (snd (CreateOrder pf s dto (init w))))
    \<and> map Quantity (order_Products order) = map item_Quantity (dto_Products dto)
    \<and> map ProductID (order_Products order) = map item_ID (dto_Products dto)"
proof -
  from NewOrder_fields[OF constructed]
  have "order_Products order = assembled_items pf s dto w" by simp
  then have q: "map Quantity (order_Products order) = map item_Quantity (dto_Products dto)"
    and p: "map ProductID (order_Products order) = map item_ID (dto_Products dto)"
    by (simp_all add: assembled_items_def ConvertDTOtoSlice_map comp_def)
  show ?thesis
    unfolding CreateOrder_resolved[OF client found]
    using constructed saved q p by (simp add: invoke_eq)
qed

subsection \<open>C9: the identifier sent to the repository\<close>

text \<open>
  Claim C9. If the identifier parses as the UUID \<open>u\<close>, \<open>GetOrderByID\<close> makes exactly
  one call, to the repository, with the text \<open>UUID.String\<close> gives for \<open>u\<close>; so every
  other identifier that parses as \<open>u\<close> leads to the same call and the same answer.
\<close>

theorem GetOrderByID_queries_canonical_id:
  assumes "uuid_Parse pf ident = Inr u"
  shows "trace (snd (GetOrderByID pf s ident st)) = trace st @ [Repo_GetOrderByID_call (uuid_String pf u)]
    \<and> world (snd (GetOrderByID pf s ident st))
         = snd (repo_GetOrderByID (orderRepo s) (uuid_String pf u) (world st))
    \<and> (\<forall>ident'. uuid_Parse pf ident' = Inr u
          \<longrightarrow> GetOrderByID pf s ident' st = GetOrderByID pf s ident st)"
  using assms by (simp add: GetOrderByID_def invoke_eq split: sum.split)

theorem GetOrderByID_queries_canonical_id_witness:
  "uuid_Parse demo_platform ''123E4567-E89B-12D3-A456-426614174000''
     = Inr ''123e4567-e89b-12d3-a456-426614174000''
   \<and> uuid_Parse demo_platform ''123e4567-e89b-12d3-a456-426614174000''
     = Inr ''123e4567-e89b-12d3-a456-426614174000''
   \<and> trace (snd (GetOrderByID demo_platform demo_service ''123E4567-E89B-12D3-A456-426614174000'' (init 0)))
     = [Repo_GetOrderByID_call ''123e4567-e89b-12d3-a456-426614174000'']
   \<and> GetOrderByID demo_platform demo_service ''123e4567-e89b-12d3-a456-426614174000'' (init 0)
     = GetOrderByID demo_platform demo_service ''123E4567-E89B-12D3-A456-426614174000'' (init 0)"
proof -
  have h1: "uuid_Parse demo_platform ''123E4567-E89B-12D3-A456-426614174000''
     = Inr ''123e4567-e89b-12d3-a456-426614174000''"
    by (simp add: demo_platform_def demo_parse_upper)
  have h2: "uuid_Parse demo_platform ''123e4567-e89b-12d3-a456-426614174000''
     = Inr ''123e4567-e89b-12d3-a456-426614174000''"
    by (simp add: demo_platform_def demo_parse_lower)
  have u: "uuid_String demo_platform ''123e4567-e89b-12d3-a456-426614174000''
     = ''123e4567-e89b-12d3-a456-426614174000''"
    by (simp add: demo_platform_def)
  note n = GetOrderByID_queries_canonical_id[OF h1, of demo_service "init 0"]
  from n have "trace (snd (GetOrderByID demo_platform demo_service
                  ''123E4567-E89B-12D3-A456-426614174000'' (init 0)))
     = trace (init 0 :: (nat, real) state)
       @ [Repo_GetOrderByID_call (uuid_String demo_platform ''123e4567-e89b-12d3-a456-426614174000'')]"
    by blast
  then have t: "trace (snd (GetOrderByID demo_platform demo_service
                  ''123E4567-E89B-12D3-A456-426614174000'' (init 0)))
     = [Repo_GetOrderByID_call ''123e4567-e89b-12d3-a456-426614174000'']"
    by (simp add: u init_def)
  from n h2 have e: "GetOrderByID demo_platform demo_service ''123e4567-e89b-12d3-a456-426614174000'' (init 0)
     = GetOrderByID demo_platform demo_service ''123E4567-E89B-12D3-A456-426614174000'' (init 0)"
    by blast
  from h1 h2 t e show ?thesis by blast
qed

subsection \<open>C10: the calls of a successful creation\<close>

text \<open>
  Claim C10. When \<open>CreateOrder\<close> succeeds with \<open>savedOrder\<close>: the client lookup, asked in
  the world the request started in, succeeded; every product lookup, asked one after the
  other in submission order from the world the client lookup left, succeeded; the
  constructor, run in the world the last lookup left, gave an order carrying the client,
  the status, the items and the total of the request; the repository's \<open>CreateOrder\<close>,
  applied to that order in the world the constructor left, returned \<open>savedOrder\<close> and left
  the world the request ends in; and the calls recorded are exactly these, in this order:
  the client lookup once, one product lookup per line, the constructor, the repository
  once.
\<close>

theorem successful_create_calls_in_order:
  fixes pf :: "('w, 'f::{zero,plus,times}, 'u) Platform" and s :: "('w, 'f, 'c) OrderService"
  assumes ok: "fst (CreateOrder pf s dto (init w)) = Inr savedOrder"
  shows "\<not> isl (fst (clientService_GetClientByCPF s (dto_Client dto) w))
    \<and> all_found (product_lookups s dto w)
    \<and> (\<exists>order.
          fst (NewOrder pf (dto_Client dto) (assembled_items pf s dto w) (dto_Status dto)
                 (assembled_total pf s dto w) (world_after_products s dto w)) = Inr order
        \<and> repo_CreateOrder (orderRepo s) order
              (snd (NewOrder pf (dto_Client dto) (assembled_items pf s dto w) (dto_Status dto)
                      (assembled_total pf s dto w) (world_after_products s dto w)))
            = (Inr savedOrder, world (snd (CreateOrder pf s dto (init w))))
        \<and> trace (snd (CreateOrder pf s dto (init w)))
            = GetClientByCPF_call (dto_Client dto)
              # map GetProductByID_call (map item_ID (dto_Products dto))
              @ [NewOrder_call (dto_Client dto) (assembled_items pf s dto w) (dto_Status dto)
                   (assembled_total pf s dto w),
                 Repo_CreateOrder_call order]
        \<and> order_Client order = dto_Client dto
        \<and> order_Products order = assembled_items pf s dto w
        \<and> order_Status order = dto_Status dto
        \<and> order_Total order = assembled_total pf s dto w)"
proof -
  obtain r w1 where r: "clientService_GetClientByCPF s (dto_Client dto) w = (r, w1)"
    by (cases "clientService_GetClientByCPF s (dto_Client dto) w")
  from ok r obtain c where c: "r = Inr c"
    by (cases r) (simp_all add: CreateOrder_def invoke_eq init_def)
  with r have client: "\<not> isl (fst (clientService_GetClientByCPF s (dto_Client dto) w))" by simp
  let ?st1 = "\<lparr>world = w1, trace = [GetClientByCPF_call (dto_Client dto)]\<rparr> :: ('w, 'f) state"
  obtain lr st2 where l: "CreateOrder_loop pf s (dto_Products dto) 0 Map.empty ?st1 = (lr, st2)"
    by (cases "CreateOrder_loop pf s (dto_Products dto) 0 Map.empty ?st1")
  from ok r c l obtain x where x: "lr = Inr x"
    by (cases lr) (simp_all add: CreateOrder_def invoke_eq init_def)
  from loop_success_found[OF l[unfolded x]] r
  have found: "all_found (product_lookups s dto w)"
    by (simp add: product_lookups_def world_after_client_def)
  obtain nr w3 where n: "NewOrder pf (dto_Client dto) (assembled_items pf s dto w) (dto_Status dto)
                 (assembled_total pf s dto w) (world_after_products s dto w) = (nr, w3)"
    by (cases "NewOrder pf (dto_Client dto) (assembled_items pf s dto w) (dto_Status dto)
                 (assembled_total pf s dto w) (world_after_products s dto w)")
  from ok n obtain order where order: "nr = Inr order"
    unfolding CreateOrder_resolved[OF client found]
    by (cases nr) (simp_all add: invoke_eq)
  obtain rr w4 where rp: "repo_CreateOrder (orderRepo s) order w3 = (rr, w4)"
    by (cases "repo_CreateOrder (orderRepo s) order w3")
  from ok n order rp have rr: "rr = Inr savedOrder"
    unfolding CreateOrder_resolved[OF client found]
    by (cases rr) (simp_all add: invoke_eq)
  have fields: "order_Client order = dto_Client dto \<and> order_Products order = assembled_items pf s dto w
      \<and> order_Status order = dto_Status dto \<and> order_Total order = assembled_total pf s dto w"
    using NewOrder_fields[of pf "dto_Client dto" "assembled_items pf s dto w" "dto_Status dto"
        "assembled_total pf s dto w" "world_after_products s dto w" order] n order
    by simp
  have run: "snd (CreateOrder pf s dto (init w)) =
      \<lparr>world = w4,
       trace = lookup_calls dto
         @ [NewOrder_call (dto_Client dto) (assembled_items pf s dto w) (dto_Status dto)
              (assembled_total pf s dto w),
            Repo_CreateOrder_call order]\<rparr>"
    unfolding CreateOrder_resolved[OF client found]
    using n order rp rr by (simp add: invoke_eq)
  show ?thesis
    using client found n order rp rr fields run
    by (auto simp: lookup_calls_def)
qed

theorem successful_create_calls_in_order_witness:
  "fst (CreateOrder demo_platform demo_service demo_request (init 0)) = Inr demo_order
   \<and> \<not> isl (fst (clientService_GetClientByCPF demo_service (dto_Client demo_request) 0))
   \<and> all_found (product_lookups demo_service demo_request 0)
   \<and> (\<exists>order.
          fst (NewOrder demo_platform (dto_Client demo_request)
                 (assembled_items demo_platform demo_service demo_request 0) (dto_Status demo_request)
                 (assembled_total demo_platform demo_service demo_request 0)
                 (world_after_products demo_service demo_request 0)) = Inr order
        \<and> repo_CreateOrder (orderRepo demo_service) order
              (snd (NewOrder demo_platform (dto_Client demo_request)
                      (assembled_items demo_platform demo_service demo_request 0)
                      (dto_Status demo_request)
                      (assembled_total demo_platform demo_service demo_request 0)
                      (world_after_products demo_service demo_request 0)))
            = (Inr demo_order,
               world (snd (CreateOrder demo_platform demo_service demo_request (init 0))))
        \<and> trace (snd (CreateOrder demo_platform demo_service demo_request (init 0)))
            = GetClientByCPF_call (dto_Client demo_request)
              # map GetProductByID_call (map item_ID (dto_Products demo_request))
              @ [NewOrder_call (dto_Client demo_request)
                   (assembled_items demo_platform demo_service demo_request 0)
                   (dto_Status demo_request)
                   (assembled_total demo_platform demo_service demo_request 0),
                 Repo_CreateOrder_call order])
   \<and> trace (snd (CreateOrder demo_platform demo_service demo_request (init 0)))
       = [GetClientByCPF_call ''11122233344'', GetProductByID_call ''P1'',
          GetProductByID_call ''P2'',
          NewOrder_call ''11122233344'' (order_Products demo_order) ''pending'' 36.5,
          Repo_CreateOrder_call demo_order]"
proof -
  have h: "fst (CreateOrder demo_platform demo_service demo_request (init 0)) = Inr demo_order"
    by (simp add: demo_request_run)
  have t: "trace (snd (CreateOrder demo_platform demo_service demo_request (init 0)))
       = [GetClientByCPF_call ''11122233344'', GetProductByID_call ''P1'',
          GetProductByID_call ''P2'',
          NewOrder_call ''11122233344'' (order_Products demo_order) ''pending'' 36.5,
          Repo_CreateOrder_call demo_order]"
    by (simp add: demo_request_run)
  from successful_create_calls_in_order[OF h] h t show ?thesis by blast
qed

end
